theory Spec2Isabelle
  imports Main "HOL-Library.Word"
begin

section \<open>The type algebra consumed by the entitlements migration\<close>

text \<open>
  \<^verbatim>\<open>migrations/entitlements/migration.go\<close> dispatches on the dynamic type of a
  \<^verbatim>\<open>sema.Type\<close>. The package \<^verbatim>\<open>sema\<close> itself is not part of the sources at hand, so
  the variants are the closed set the specification lists: the six variants the type switch
  names, and \<open>Leaf\<close> for every other type (the \<^verbatim>\<open>default\<close> branch; a nil interface value
  takes that branch too).
\<close>

type_synonym entitlement = nat

datatype set_kind = Conjunction | Disjunction

text \<open>
  An authorization is \<^verbatim>\<open>sema.UnauthorizedAccess\<close> or an \<^verbatim>\<open>EntitlementSetAccess\<close> with its
  \<^verbatim>\<open>SetKind\<close> and its ordered set of entitlements, here the list of its members in order.
  The size of a constant-sized array is only ever copied by the migration, so it is a
  natural number.
\<close>

datatype access =
    UnauthorizedAccess
  | EntitlementSetAccess set_kind "entitlement list"

datatype sema_type =
    ReferenceType access sema_type
  | OptionalType sema_type
  | CapabilityType sema_type
  | VariableSizedType sema_type
  | ConstantSizedType sema_type nat
  | DictionaryType sema_type sema_type
  | Leaf nat

text \<open>
  The query \<^verbatim>\<open>innerType.(sema.EntitlementSupportingType)\<close> followed by
  \<^verbatim>\<open>SupportedEntitlements()\<close> belongs to the type system. It is a parameter of the
  model: \<open>None\<close> when the type assertion fails, \<open>Some S\<close> with the supported set otherwise.
\<close>

type_synonym entitlement_support = "sema_type \<Rightarrow> entitlement list option"

section \<open>ConvertToEntitledType\<close>

text \<open>
  The authorization computed in the \<^verbatim>\<open>case sema.UnauthorizedAccess\<close> branch: it starts as
  \<^verbatim>\<open>sema.UnauthorizedAccess\<close> and is replaced only when the type assertion succeeds and
  \<^verbatim>\<open>supportedEntitlements.Len() > 0\<close>.
\<close>

definition entitledAuth :: "entitlement_support \<Rightarrow> sema_type \<Rightarrow> access" where
  "entitledAuth supp innerType =
     (case supp innerType of
        Some supportedEntitlements \<Rightarrow>
          if length supportedEntitlements > 0
          then EntitlementSetAccess Conjunction supportedEntitlements
          else UnauthorizedAccess
      | None \<Rightarrow> UnauthorizedAccess)"

fun ConvertToEntitledType :: "entitlement_support \<Rightarrow> sema_type \<Rightarrow> sema_type" where
  "ConvertToEntitledType supp (ReferenceType UnauthorizedAccess t) =
     (let innerType = ConvertToEntitledType supp t;
          auth = entitledAuth supp innerType
      in ReferenceType auth innerType)"
| "ConvertToEntitledType supp (ReferenceType a t) = ReferenceType a t"
| "ConvertToEntitledType supp (OptionalType t) =
     OptionalType (ConvertToEntitledType supp t)"
| "ConvertToEntitledType supp (CapabilityType borrowType) =
     CapabilityType (ConvertToEntitledType supp borrowType)"
| "ConvertToEntitledType supp (VariableSizedType t) =
     VariableSizedType (ConvertToEntitledType supp t)"
| "ConvertToEntitledType supp (ConstantSizedType t n) =
     ConstantSizedType (ConvertToEntitledType supp t) n"
| "ConvertToEntitledType supp (DictionaryType k v) =
     DictionaryType (ConvertToEntitledType supp k) (ConvertToEntitledType supp v)"
| "ConvertToEntitledType supp (Leaf l) = Leaf l"

text \<open>
  The same Go function with everything a call can do besides returning a type.
  The query is taken as Go performs it: the type assertion fails (\<open>NotSupporting\<close>), or it
  succeeds and \<^verbatim>\<open>SupportedEntitlements()\<close> hands back an ordered set, or it succeeds and
  hands back no set at all (\<open>NilSet\<close>). The body calls \<^verbatim>\<open>supportedEntitlements.Len()\<close> on
  the answer with no test in between, and \<^verbatim>\<open>Len\<close> reads a field of its receiver, so a nil
  set ends the call with a nil pointer dereference.
\<close>

datatype entitlement_answer = NotSupporting | NilSet | SupportedSet "entitlement list"

type_synonym entitlement_query = "sema_type \<Rightarrow> entitlement_answer"

datatype convert_panic = NilPointerDereference

definition entitledAuth_run :: "entitlement_query \<Rightarrow> sema_type \<Rightarrow> convert_panic + access" where
  "entitledAuth_run query innerType =
     (case query innerType of
        NotSupporting \<Rightarrow> Inr UnauthorizedAccess
      | NilSet \<Rightarrow> Inl NilPointerDereference
      | SupportedSet supportedEntitlements \<Rightarrow>
          if length supportedEntitlements > 0
          then Inr (EntitlementSetAccess Conjunction supportedEntitlements)
          else Inr UnauthorizedAccess)"

text \<open>
  The recursion is not taken to end: \<open>None\<close> is a call that never returns, \<open>Some (Inl p)\<close>
  a call that panics, \<open>Some (Inr t)\<close> a call that returns \<open>t\<close>. A panic in a recursive
  call ends the calling one; the key type of a dictionary is converted before its value type.
\<close>

partial_function (option) ConvertToEntitledType_run ::
  "entitlement_query \<Rightarrow> sema_type \<Rightarrow> (convert_panic + sema_type) option" where
  "ConvertToEntitledType_run query ty =
     (case ty of
        ReferenceType a t \<Rightarrow>
          (case a of
             UnauthorizedAccess \<Rightarrow>
               Option.bind (ConvertToEntitledType_run query t)
                 (\<lambda>r. case r of
                    Inl p \<Rightarrow> Some (Inl p)
                  | Inr innerType \<Rightarrow>
                      (case entitledAuth_run query innerType of
                         Inl p \<Rightarrow> Some (Inl p)
                       | Inr auth \<Rightarrow> Some (Inr (ReferenceType auth innerType))))
           | EntitlementSetAccess k S \<Rightarrow> Some (Inr ty))
      | OptionalType t \<Rightarrow>
          Option.bind (ConvertToEntitledType_run query t)
            (\<lambda>r. case r of Inl p \<Rightarrow> Some (Inl p) | Inr t' \<Rightarrow> Some (Inr (OptionalType t')))
      | CapabilityType borrowType \<Rightarrow>
          Option.bind (ConvertToEntitledType_run query borrowType)
            (\<lambda>r. case r of Inl p \<Rightarrow> Some (Inl p) | Inr t' \<Rightarrow> Some (Inr (CapabilityType t')))
      | VariableSizedType t \<Rightarrow>
          Option.bind (ConvertToEntitledType_run query t)
            (\<lambda>r. case r of
               Inl p \<Rightarrow> Some (Inl p)
             | Inr t' \<Rightarrow> Some (Inr (VariableSizedType t')))
      | ConstantSizedType t n \<Rightarrow>
          Option.bind (ConvertToEntitledType_run query t)
            (\<lambda>r. case r of
               Inl p \<Rightarrow> Some (Inl p)
             | Inr t' \<Rightarrow> Some (Inr (ConstantSizedType t' n)))
      | DictionaryType k v \<Rightarrow>
          Option.bind (ConvertToEntitledType_run query k)
            (\<lambda>r. case r of
               Inl p \<Rightarrow> Some (Inl p)
             | Inr k' \<Rightarrow>
                 Option.bind (ConvertToEntitledType_run query v)
                   (\<lambda>s. case s of
                      Inl p \<Rightarrow> Some (Inl p)
                    | Inr v' \<Rightarrow> Some (Inr (DictionaryType k' v'))))
      | Leaf l \<Rightarrow> Some (Inr ty))"

text \<open>
  A query that never hands back a nil set, read as the two-way answer of
  \<open>entitlement_support\<close>.
\<close>

definition support_of :: "entitlement_query \<Rightarrow> entitlement_support" where
  "support_of query t =
     (case query t of
        NotSupporting \<Rightarrow> None
      | NilSet \<Rightarrow> None
      | SupportedSet S \<Rightarrow> Some S)"

text \<open>The type with every authorization erased: what is left is the tree structure.\<close>

fun erase_auth :: "sema_type \<Rightarrow> sema_type" where
  "erase_auth (ReferenceType a t) = ReferenceType UnauthorizedAccess (erase_auth t)"
| "erase_auth (OptionalType t) = OptionalType (erase_auth t)"
| "erase_auth (CapabilityType t) = CapabilityType (erase_auth t)"
| "erase_auth (VariableSizedType t) = VariableSizedType (erase_auth t)"
| "erase_auth (ConstantSizedType t n) = ConstantSizedType (erase_auth t) n"
| "erase_auth (DictionaryType k v) = DictionaryType (erase_auth k) (erase_auth v)"
| "erase_auth (Leaf l) = Leaf l"

text \<open>
  The authorizations at corresponding positions of two types, walked in parallel; the walk
  stops where the two trees differ in shape.
\<close>

fun auth_pairs :: "sema_type \<Rightarrow> sema_type \<Rightarrow> (access \<times> access) list" where
  "auth_pairs (ReferenceType a t) (ReferenceType a' t') = (a, a') # auth_pairs t t'"
| "auth_pairs (OptionalType t) (OptionalType t') = auth_pairs t t'"
| "auth_pairs (CapabilityType t) (CapabilityType t') = auth_pairs t t'"
| "auth_pairs (VariableSizedType t) (VariableSizedType t') = auth_pairs t t'"
| "auth_pairs (ConstantSizedType t n) (ConstantSizedType t' n') = auth_pairs t t'"
| "auth_pairs (DictionaryType k v) (DictionaryType k' v') =
     auth_pairs k k' @ auth_pairs v v'"
| "auth_pairs t t' = []"

text \<open>All authorizations occurring in a type, in the same order.\<close>

fun auths :: "sema_type \<Rightarrow> access list" where
  "auths (ReferenceType a t) = a # auths t"
| "auths (OptionalType t) = auths t"
| "auths (CapabilityType t) = auths t"
| "auths (VariableSizedType t) = auths t"
| "auths (ConstantSizedType t n) = auths t"
| "auths (DictionaryType k v) = auths k @ auths v"
| "auths (Leaf l) = []"

section \<open>Migrating values\<close>

text \<open>
  \<^verbatim>\<open>EntitlementsMigration.Migrate\<close> hands the value and the function
  \<^verbatim>\<open>ConvertToEntitledType\<close> to \<^verbatim>\<open>Interpreter.ConvertValueToEntitlements\<close>, which lives
  in the interpreter package and is not among the sources at hand. Values, errors and the
  walk below are therefore taken from the specification (sections 3, 4.2 and 7).
\<close>

type_synonym slot_id = nat

datatype composite_kind = Struct | Resource | Contract | Enum | Event

datatype migration_error =
    TypeConversionError
  | ValueShapeMismatch
  | ResourceLinearityViolation
  | CapabilityResolutionError
  | MigrationFatalError

text \<open>
  A reference value holds its target, its authorization and the static type it was declared
  with; a capability holds its address and borrow type.
\<close>

datatype val =
    CompositeValue composite_kind "(string \<times> val) list" slot_id
  | OptionalValue "val option"
  | CapabilityValue nat sema_type
  | ArrayValue "val list" bool
  | DictionaryValue "(val \<times> val) list" bool
  | ReferenceValue slot_id access sema_type
  | PrimitiveValue nat

text \<open>The identity-tracking context: the values already migrated, by slot.\<close>

type_synonym memo = "slot_id \<Rightarrow> val option"

text \<open>
  Modelled from the spec: \<^verbatim>\<open>Interpreter.ConvertValueToEntitlements\<close>, which is missing
  from the sources. It follows section 4.2 variant by variant:
  a composite is looked up in the context by its identity and otherwise rebuilt field by
  field in the same slot and entered into the context; an optional migrates what it holds;
  a capability migrates its borrow type and keeps its address; arrays and dictionaries
  migrate every element and value; a dictionary key is migrated only when it is a
  reference, and a key whose migrated form differs is a \<open>ResourceLinearityViolation\<close>;
  a reference takes the authorization of its migrated declared type and keeps its target
  (a declared type that is not a reference type is a \<open>ValueShapeMismatch\<close>); a primitive is
  unchanged. The first error ends the walk.
\<close>

fun ConvertValueToEntitlements ::
    "(sema_type \<Rightarrow> sema_type) \<Rightarrow> memo \<Rightarrow> val \<Rightarrow> (migration_error + val) \<times> memo"
  and convertFields ::
    "(sema_type \<Rightarrow> sema_type) \<Rightarrow> memo \<Rightarrow> (string \<times> val) list \<Rightarrow>
       (migration_error + (string \<times> val) list) \<times> memo"
  and convertElems ::
    "(sema_type \<Rightarrow> sema_type) \<Rightarrow> memo \<Rightarrow> val list \<Rightarrow>
       (migration_error + val list) \<times> memo"
  and convertEntries ::
    "(sema_type \<Rightarrow> sema_type) \<Rightarrow> memo \<Rightarrow> (val \<times> val) list \<Rightarrow>
       (migration_error + (val \<times> val) list) \<times> memo"
where
  "ConvertValueToEntitlements conv m (CompositeValue kind fields ident) =
     (case m ident of
        Some migrated \<Rightarrow> (Inr migrated, m)
      | None \<Rightarrow>
          (case convertFields conv m fields of
             (Inl e, m1) \<Rightarrow> (Inl e, m1)
           | (Inr fields', m1) \<Rightarrow>
               (Inr (CompositeValue kind fields' ident),
                m1(ident \<mapsto> CompositeValue kind fields' ident))))"
| "ConvertValueToEntitlements conv m (OptionalValue None) = (Inr (OptionalValue None), m)"
| "ConvertValueToEntitlements conv m (OptionalValue (Some v)) =
     (case ConvertValueToEntitlements conv m v of
        (Inl e, m1) \<Rightarrow> (Inl e, m1)
      | (Inr v', m1) \<Rightarrow> (Inr (OptionalValue (Some v')), m1))"
| "ConvertValueToEntitlements conv m (CapabilityValue address borrowType) =
     (Inr (CapabilityValue address (conv borrowType)), m)"
| "ConvertValueToEntitlements conv m (ArrayValue elems isResourceKinded) =
     (case convertElems conv m elems of
        (Inl e, m1) \<Rightarrow> (Inl e, m1)
      | (Inr elems', m1) \<Rightarrow> (Inr (ArrayValue elems' isResourceKinded), m1))"
| "ConvertValueToEntitlements conv m (DictionaryValue entries isResourceKinded) =
     (case convertEntries conv m entries of
        (Inl e, m1) \<Rightarrow> (Inl e, m1)
      | (Inr entries', m1) \<Rightarrow> (Inr (DictionaryValue entries' isResourceKinded), m1))"
| "ConvertValueToEntitlements conv m (ReferenceValue target auth declared) =
     (case conv declared of
        ReferenceType auth' inner \<Rightarrow> (Inr (ReferenceValue target auth' declared), m)
      | _ \<Rightarrow> (Inl ValueShapeMismatch, m))"
| "ConvertValueToEntitlements conv m (PrimitiveValue p) = (Inr (PrimitiveValue p), m)"
| "convertFields conv m [] = (Inr [], m)"
| "convertFields conv m ((name, v) # rest) =
     (case ConvertValueToEntitlements conv m v of
        (Inl e, m1) \<Rightarrow> (Inl e, m1)
      | (Inr v', m1) \<Rightarrow>
          (case convertFields conv m1 rest of
             (Inl e, m2) \<Rightarrow> (Inl e, m2)
           | (Inr rest', m2) \<Rightarrow> (Inr ((name, v') # rest'), m2)))"
| "convertElems conv m [] = (Inr [], m)"
| "convertElems conv m (v # rest) =
     (case ConvertValueToEntitlements conv m v of
        (Inl e, m1) \<Rightarrow> (Inl e, m1)
      | (Inr v', m1) \<Rightarrow>
          (case convertElems conv m1 rest of
             (Inl e, m2) \<Rightarrow> (Inl e, m2)
           | (Inr rest', m2) \<Rightarrow> (Inr (v' # rest'), m2)))"
| "convertEntries conv m [] = (Inr [], m)"
| "convertEntries conv m ((ReferenceValue target auth declared, v) # rest) =
     (case ConvertValueToEntitlements conv m (ReferenceValue target auth declared) of
        (Inl e, m1) \<Rightarrow> (Inl e, m1)
      | (Inr k', m1) \<Rightarrow>
          if k' \<noteq> ReferenceValue target auth declared
          then (Inl ResourceLinearityViolation, m1)
          else
            (case ConvertValueToEntitlements conv m1 v of
               (Inl e, m2) \<Rightarrow> (Inl e, m2)
             | (Inr v', m2) \<Rightarrow>
                 (case convertEntries conv m2 rest of
                    (Inl e, m3) \<Rightarrow> (Inl e, m3)
                  | (Inr rest', m3) \<Rightarrow> (Inr ((k', v') # rest'), m3))))"
| "convertEntries conv m ((k, v) # rest) =
     (case ConvertValueToEntitlements conv m v of
        (Inl e, m1) \<Rightarrow> (Inl e, m1)
      | (Inr v', m1) \<Rightarrow>
          (case convertEntries conv m1 rest of
             (Inl e, m2) \<Rightarrow> (Inl e, m2)
           | (Inr rest', m2) \<Rightarrow> (Inr ((k, v') # rest'), m2)))"

text \<open>
  \<^verbatim>\<open>EntitlementsMigration.Migrate\<close>: the call
  \<^verbatim>\<open>mig.Interpreter.ConvertValueToEntitlements(value, ConvertToEntitledType)\<close>, with the
  interpreter's context passed in and out.
\<close>

definition Migrate ::
    "entitlement_support \<Rightarrow> memo \<Rightarrow> val \<Rightarrow> (migration_error + val) \<times> memo" where
  "Migrate supp interpreter v =
     ConvertValueToEntitlements (ConvertToEntitledType supp) interpreter v"

section \<open>PrimitiveAccess.String\<close>

text \<open>
  \<^verbatim>\<open>runtime/ast/primitiveaccess_string.go\<close> is generated by \<^verbatim>\<open>stringer\<close>. The
  declaration of \<^verbatim>\<open>PrimitiveAccess\<close> is not among the sources; the generated method has
  no \<^verbatim>\<open>i < 0\<close> test, which \<^verbatim>\<open>stringer\<close> leaves out for unsigned types only, and the
  language's \<^verbatim>\<open>ast\<close> package declares it as \<^verbatim>\<open>uint8\<close>.
\<close>

type_synonym PrimitiveAccess = "8 word"

datatype go_panic = IndexOutOfRange | SliceBoundsOutOfRange

definition PrimitiveAccess_name :: string where
  "PrimitiveAccess_name =
     ''AccessNotSpecifiedAccessNoneAccessSelfAccessContractAccessAccountAccessAllAccessPubSettableLegacy''"

definition PrimitiveAccess_index :: "8 word list" where
  "PrimitiveAccess_index = [0, 18, 28, 38, 52, 65, 74, 97]"

text \<open>Go's array indexing \<^verbatim>\<open>a[i]\<close>: a run-time panic when the index is out of range.\<close>

definition index_at :: "'a list \<Rightarrow> nat \<Rightarrow> go_panic + 'a" where
  "index_at xs i = (if i < length xs then Inr (xs ! i) else Inl IndexOutOfRange)"

text \<open>Go's string slicing \<^verbatim>\<open>s[lo:hi]\<close>: a panic unless \<open>lo \<le> hi \<le> len(s)\<close>.\<close>

definition slice_string :: "string \<Rightarrow> nat \<Rightarrow> nat \<Rightarrow> go_panic + string" where
  "slice_string s lo hi =
     (if lo \<le> hi \<and> hi \<le> length s then Inr (take (hi - lo) (drop lo s))
      else Inl SliceBoundsOutOfRange)"

text \<open>\<^verbatim>\<open>strconv.FormatInt(n, 10)\<close>: the decimal digits, most significant first.\<close>

definition digits :: string where
  "digits = ''0123456789''"

fun decimal_digits :: "nat \<Rightarrow> string" where
  "decimal_digits n =
     (if n < 10 then [digits ! n]
      else decimal_digits (n div 10) @ [digits ! (n mod 10)])"

declare decimal_digits.simps [simp del]

definition FormatInt10 :: "int \<Rightarrow> string" where
  "FormatInt10 n = (if n < 0 then CHR ''-'' # decimal_digits (nat (- n))
                    else decimal_digits (nat n))"

definition String :: "PrimitiveAccess \<Rightarrow> go_panic + string" where
  "String i =
     (if i \<ge> of_nat (length PrimitiveAccess_index - 1)
      then Inr (''PrimitiveAccess('' @ FormatInt10 (uint i) @ '')'')
      else
        (case index_at PrimitiveAccess_index (unat i) of
           Inl p \<Rightarrow> Inl p
         | Inr lo \<Rightarrow>
             (case index_at PrimitiveAccess_index (unat (i + 1)) of
                Inl p \<Rightarrow> Inl p
              | Inr hi \<Rightarrow> slice_string PrimitiveAccess_name (unat lo) (unat hi))))"

text \<open>The number a string of decimal digits denotes.\<close>

definition decimal_value :: "string \<Rightarrow> nat" where
  "decimal_value s = foldl (\<lambda>acc c. 10 * acc + (of_char c - 48)) 0 s"

section \<open>Properties of ConvertToEntitledType\<close>

lemma entitledAuth_cases:
  "entitledAuth supp t = UnauthorizedAccess \<or>
   (\<exists>S. supp t = Some S \<and> S \<noteq> [] \<and>
        entitledAuth supp t = EntitlementSetAccess Conjunction S)"
  by (simp add: entitledAuth_def split: option.split)

lemma convert_reference_shape:
  "\<exists>a' inner'. ConvertToEntitledType supp (ReferenceType a inner) = ReferenceType a' inner'"
  by (cases a) (simp_all add: Let_def)

text \<open>
  C1: an unauthorized reference type is converted to a reference type over the converted
  inner type. Its authorization is the conjunction of the entitlements the converted inner
  type supports when that set is not empty, and stays unauthorized when the converted inner
  type supports no entitlements, be it that it does not answer the query or that its set
  is empty.
\<close>

theorem unauthorized_reference_entitled:
  "\<exists>a. ConvertToEntitledType supp (ReferenceType UnauthorizedAccess inner) =
         ReferenceType a (ConvertToEntitledType supp inner) \<and>
       (\<forall>S. supp (ConvertToEntitledType supp inner) = Some S \<and> S \<noteq> [] \<longrightarrow>
            a = EntitlementSetAccess Conjunction S) \<and>
       (supp (ConvertToEntitledType supp inner) = None \<or>
        supp (ConvertToEntitledType supp inner) = Some [] \<longrightarrow> a = UnauthorizedAccess)"
  by (auto simp add: entitledAuth_def Let_def)

theorem unauthorized_reference_entitled_witness:
  "ConvertToEntitledType (\<lambda>t. if t = Leaf 0 then Some [1, 2] else None)
     (ReferenceType UnauthorizedAccess (Leaf 0)) =
   ReferenceType (EntitlementSetAccess Conjunction [1, 2]) (Leaf 0) \<and>
   ConvertToEntitledType (\<lambda>t. if t = Leaf 0 then Some [] else None)
     (ReferenceType UnauthorizedAccess (Leaf 0)) =
   ReferenceType UnauthorizedAccess (Leaf 0) \<and>
   ConvertToEntitledType (\<lambda>t. None)
     (ReferenceType UnauthorizedAccess (Leaf 0)) =
   ReferenceType UnauthorizedAccess (Leaf 0)"
  using
    unauthorized_reference_entitled
      [of "\<lambda>t. if t = Leaf 0 then Some [1, 2] else None" "Leaf 0"]
    unauthorized_reference_entitled
      [of "\<lambda>t. if t = Leaf 0 then Some [] else None" "Leaf 0"]
    unauthorized_reference_entitled [of "\<lambda>t. None" "Leaf 0"]
  by simp

text \<open>
  C2: a reference type that already carries an entitlement set is returned as it is,
  whatever the entitlement query would answer for its inner type; the inner type is not
  converted.
\<close>

theorem authorized_reference_fixed:
  "ConvertToEntitledType supp (ReferenceType (EntitlementSetAccess k S) inner) =
   ReferenceType (EntitlementSetAccess k S) inner"
  by simp

text \<open>
  C3: converting twice with the same entitlement query gives the same type as converting
  once.
\<close>

theorem ConvertToEntitledType_idempotent:
  "ConvertToEntitledType supp (ConvertToEntitledType supp t) = ConvertToEntitledType supp t"
proof (induction t)
  case (ReferenceType a t)
  show ?case
  proof (cases a)
    case UnauthorizedAccess
    note unauth = this
    show ?thesis
    proof (cases "entitledAuth supp (ConvertToEntitledType supp t)")
      case UnauthorizedAccess
      then show ?thesis
        using ReferenceType unauth by (simp add: Let_def)
    next
      case (EntitlementSetAccess k S)
      then show ?thesis
        using unauth by (simp add: Let_def)
    qed
  next
    case (EntitlementSetAccess k S)
    then show ?thesis by simp
  qed
qed simp_all

lemma auth_pairs_same: "auth_pairs t t = map (\<lambda>a. (a, a)) (auths t)"
  by (induction t) simp_all

lemma auth_pairs_convert_snd:
  "map snd (auth_pairs t (ConvertToEntitledType supp t)) =
   auths (ConvertToEntitledType supp t)"
proof (induction t)
  case (ReferenceType a t)
  then show ?case by (cases a) (simp_all add: Let_def auth_pairs_same comp_def)
qed simp_all

lemma auth_pairs_convert_new:
  "(a, a') \<in> set (auth_pairs t (ConvertToEntitledType supp t)) \<Longrightarrow>
   a' = a \<or>
   (a = UnauthorizedAccess \<and> (\<exists>S. a' = EntitlementSetAccess Conjunction S \<and> S \<noteq> []))"
proof (induction t)
  case (ReferenceType b t)
  show ?case
  proof (cases b)
    case UnauthorizedAccess
    with ReferenceType show ?thesis
      using entitledAuth_cases [of supp "ConvertToEntitledType supp t"]
      by (auto simp add: Let_def)
  next
    case (EntitlementSetAccess k S)
    with ReferenceType.prems show ?thesis
      by (auto simp add: auth_pairs_same)
  qed
qed auto

text \<open>
  C4: every authorization of the output sits at a position of the input (the pairs below
  cover all authorizations of the output), and it is either the authorization the input has
  there, or it replaces \<open>UnauthorizedAccess\<close> by a conjunction over a set with at least one
  entitlement. So no entitlement set the conversion introduces is empty.
\<close>

theorem introduced_auth_nonempty:
  "(\<forall>(a, a') \<in> set (auth_pairs t (ConvertToEntitledType supp t)).
      a' = a \<or> (a = UnauthorizedAccess \<and>
                (\<exists>S. a' = EntitlementSetAccess Conjunction S \<and> length S > 0))) \<and>
   map snd (auth_pairs t (ConvertToEntitledType supp t)) =
     auths (ConvertToEntitledType supp t)"
  using auth_pairs_convert_new [of _ _ t supp] auth_pairs_convert_snd [of t supp]
  by auto

theorem introduced_auth_nonempty_witness:
  "(UnauthorizedAccess, EntitlementSetAccess Conjunction [1, 2]) \<in>
     set (auth_pairs
       (DictionaryType (ReferenceType UnauthorizedAccess (Leaf 0))
          (ReferenceType UnauthorizedAccess (Leaf 1)))
       (ConvertToEntitledType
          (\<lambda>t. if t = Leaf 0 then Some [1, 2] else if t = Leaf 1 then Some [] else None)
          (DictionaryType (ReferenceType UnauthorizedAccess (Leaf 0))
             (ReferenceType UnauthorizedAccess (Leaf 1))))) \<and>
   auths (ConvertToEntitledType
          (\<lambda>t. if t = Leaf 0 then Some [1, 2] else if t = Leaf 1 then Some [] else None)
          (DictionaryType (ReferenceType UnauthorizedAccess (Leaf 0))
             (ReferenceType UnauthorizedAccess (Leaf 1)))) =
     [EntitlementSetAccess Conjunction [1, 2], UnauthorizedAccess]"
  using introduced_auth_nonempty
    [of "DictionaryType (ReferenceType UnauthorizedAccess (Leaf 0))
           (ReferenceType UnauthorizedAccess (Leaf 1))"
        "\<lambda>t. if t = Leaf 0 then Some [1, 2] else if t = Leaf 1 then Some [] else None"]
  by (simp add: Let_def entitledAuth_def)

text \<open>
  C5: the conversion maps each container type to the same container over the converted
  component types; the size of a constant-sized array is kept.
\<close>

theorem containers_homomorphic:
  "ConvertToEntitledType supp (OptionalType inner) =
     OptionalType (ConvertToEntitledType supp inner) \<and>
   ConvertToEntitledType supp (CapabilityType borrowType) =
     CapabilityType (ConvertToEntitledType supp borrowType) \<and>
   ConvertToEntitledType supp (VariableSizedType elem) =
     VariableSizedType (ConvertToEntitledType supp elem) \<and>
   ConvertToEntitledType supp (ConstantSizedType elem n) =
     ConstantSizedType (ConvertToEntitledType supp elem) n \<and>
   ConvertToEntitledType supp (DictionaryType k v) =
     DictionaryType (ConvertToEntitledType supp k) (ConvertToEntitledType supp v)"
  by simp

text \<open>
  C6: a type that is none of reference, optional, capability, variable-sized array,
  constant-sized array and dictionary is returned unchanged.
\<close>

theorem leaf_unchanged:
  assumes "\<forall>a u. t \<noteq> ReferenceType a u"
    and "\<forall>u. t \<noteq> OptionalType u"
    and "\<forall>u. t \<noteq> CapabilityType u"
    and "\<forall>u. t \<noteq> VariableSizedType u"
    and "\<forall>u n. t \<noteq> ConstantSizedType u n"
    and "\<forall>k v. t \<noteq> DictionaryType k v"
  shows "ConvertToEntitledType supp t = t"
  using assms by (cases t) simp_all

theorem leaf_unchanged_witness:
  "ConvertToEntitledType (\<lambda>t. Some [1]) (Leaf 3) = Leaf 3"
  using leaf_unchanged [of "Leaf 3" "\<lambda>t. Some [1]"] by simp

lemma ConvertToEntitledType_run_ends:
  "\<exists>r. ConvertToEntitledType_run query t = Some r"
proof (induction t)
  case (ReferenceType a t)
  then obtain r where "ConvertToEntitledType_run query t = Some r" by blast
  then show ?case
    by (subst ConvertToEntitledType_run.simps) (simp split: access.split sum.split)
next
  case (OptionalType t)
  then obtain r where "ConvertToEntitledType_run query t = Some r" by blast
  then show ?case
    by (subst ConvertToEntitledType_run.simps) (simp split: sum.split)
next
  case (CapabilityType t)
  then obtain r where "ConvertToEntitledType_run query t = Some r" by blast
  then show ?case
    by (subst ConvertToEntitledType_run.simps) (simp split: sum.split)
next
  case (VariableSizedType t)
  then obtain r where "ConvertToEntitledType_run query t = Some r" by blast
  then show ?case
    by (subst ConvertToEntitledType_run.simps) (simp split: sum.split)
next
  case (ConstantSizedType t n)
  then obtain r where "ConvertToEntitledType_run query t = Some r" by blast
  then show ?case
    by (subst ConvertToEntitledType_run.simps) (simp split: sum.split)
next
  case (DictionaryType k v)
  then obtain r s where "ConvertToEntitledType_run query k = Some r"
    and "ConvertToEntitledType_run query v = Some s" by blast
  then show ?case
    by (subst ConvertToEntitledType_run.simps) (simp split: sum.split)
next
  case (Leaf l)
  show ?case by (subst ConvertToEntitledType_run.simps) simp
qed

lemma entitledAuth_run_no_nil:
  "query t \<noteq> NilSet \<Longrightarrow> entitledAuth_run query t = Inr (entitledAuth (support_of query) t)"
  by (simp add: entitledAuth_run_def entitledAuth_def support_of_def
      split: entitlement_answer.split)

lemma ConvertToEntitledType_run_no_nil:
  assumes "\<forall>u. query u \<noteq> NilSet"
  shows "ConvertToEntitledType_run query t =
         Some (Inr (ConvertToEntitledType (support_of query) t))"
proof (induction t)
  case (ReferenceType a t)
  then show ?case
    using assms
    by (subst ConvertToEntitledType_run.simps)
      (simp add: Let_def entitledAuth_run_no_nil split: access.split)
next
  case (OptionalType t)
  then show ?case by (subst ConvertToEntitledType_run.simps) simp
next
  case (CapabilityType t)
  then show ?case by (subst ConvertToEntitledType_run.simps) simp
next
  case (VariableSizedType t)
  then show ?case by (subst ConvertToEntitledType_run.simps) simp
next
  case (ConstantSizedType t n)
  then show ?case by (subst ConvertToEntitledType_run.simps) simp
next
  case (DictionaryType k v)
  then show ?case by (subst ConvertToEntitledType_run.simps) simp
next
  case (Leaf l)
  show ?case by (subst ConvertToEntitledType_run.simps) simp
qed

lemma ConvertToEntitledType_run_nil:
  assumes "ConvertToEntitledType_run query inner = Some (Inr inner')"
    and "query inner' = NilSet"
  shows "ConvertToEntitledType_run query (ReferenceType UnauthorizedAccess inner) =
         Some (Inl NilPointerDereference)"
  using assms
  by (subst ConvertToEntitledType_run.simps) (simp add: entitledAuth_run_def)


text \<open>
  C9: the conversion changes authorizations only. With every authorization erased, the
  output is the input: the same variant at every depth, the same array sizes, the same
  leaves.
\<close>

theorem shape_preserved:
  "erase_auth (ConvertToEntitledType supp t) = erase_auth t"
proof (induction t)
  case (ReferenceType a t)
  then show ?case by (cases a) (simp_all add: Let_def)
qed simp_all

section \<open>Properties of the value migration\<close>

lemma migrate_reference:
  "Migrate supp m (ReferenceValue target auth declared) =
     (case ConvertToEntitledType supp declared of
        ReferenceType auth' inner \<Rightarrow> (Inr (ReferenceValue target auth' declared), m)
      | _ \<Rightarrow> (Inl ValueShapeMismatch, m))"
  unfolding Migrate_def by (rule ConvertValueToEntitlements.simps)

text \<open>
  C8: migrating a reference value whose declared type is a reference type succeeds and
  gives the same reference with the authorization of the converted declared type; and
  whenever the migration of a reference value succeeds, the result has the target of the
  input, the authorization of the converted declared type, and the context is unchanged.
\<close>

theorem reference_value_target_kept:
  "(\<exists>a' inner'.
      ConvertToEntitledType supp (ReferenceType a inner) = ReferenceType a' inner' \<and>
      Migrate supp m (ReferenceValue target auth (ReferenceType a inner)) =
        (Inr (ReferenceValue target a' (ReferenceType a inner)), m)) \<and>
   (\<forall>v' m'. Migrate supp m (ReferenceValue target auth declared) = (Inr v', m') \<longrightarrow>
      (\<exists>a' inner'. ConvertToEntitledType supp declared = ReferenceType a' inner' \<and>
         v' = ReferenceValue target a' declared \<and> m' = m))"
proof (intro conjI allI impI)
  obtain a' inner' where
    c: "ConvertToEntitledType supp (ReferenceType a inner) = ReferenceType a' inner'"
    using convert_reference_shape by blast
  have "Migrate supp m (ReferenceValue target auth (ReferenceType a inner)) =
        (Inr (ReferenceValue target a' (ReferenceType a inner)), m)"
    unfolding migrate_reference c by simp
  with c show "\<exists>a' inner'.
      ConvertToEntitledType supp (ReferenceType a inner) = ReferenceType a' inner' \<and>
      Migrate supp m (ReferenceValue target auth (ReferenceType a inner)) =
        (Inr (ReferenceValue target a' (ReferenceType a inner)), m)"
    by blast
next
  fix v' m'
  assume r: "Migrate supp m (ReferenceValue target auth declared) = (Inr v', m')"
  show "\<exists>a' inner'. ConvertToEntitledType supp declared = ReferenceType a' inner' \<and>
         v' = ReferenceValue target a' declared \<and> m' = m"
  proof (cases "ConvertToEntitledType supp declared")
    case (ReferenceType a' inner')
    with r show ?thesis unfolding migrate_reference by simp
  qed (use r in \<open>simp_all add: migrate_reference\<close>)
qed

theorem reference_value_target_kept_witness:
  "Migrate (\<lambda>t. if t = Leaf 0 then Some [1] else None) Map.empty
     (ReferenceValue 5 UnauthorizedAccess (ReferenceType UnauthorizedAccess (Leaf 0))) =
   (Inr (ReferenceValue 5 (EntitlementSetAccess Conjunction [1])
           (ReferenceType UnauthorizedAccess (Leaf 0))), Map.empty)"
proof -
  let ?supp = "\<lambda>t. if t = Leaf 0 then Some [1] else None"
  let ?T = "ReferenceType UnauthorizedAccess (Leaf 0)"
  note kept = reference_value_target_kept [of ?supp UnauthorizedAccess "Leaf 0" Map.empty 5
      UnauthorizedAccess ?T]
  from kept obtain b where
    run: "Migrate ?supp Map.empty (ReferenceValue 5 UnauthorizedAccess ?T) =
            (Inr (ReferenceValue 5 b ?T), Map.empty)"
    by blast
  with kept obtain a' inner' where
    conv: "ConvertToEntitledType ?supp ?T = ReferenceType a' inner'" and
    res: "ReferenceValue 5 b ?T = ReferenceValue 5 a' ?T"
    by blast
  have "ConvertToEntitledType ?supp ?T =
          ReferenceType (EntitlementSetAccess Conjunction [1]) (Leaf 0)"
    by (simp add: Let_def entitledAuth_def)
  with conv res have "b = EntitlementSetAccess Conjunction [1]" by simp
  with run show ?thesis by simp
qed

section \<open>Properties of PrimitiveAccess.String\<close>

lemma digit_value: "d < 10 \<Longrightarrow> of_char (digits ! d) = (48 + d :: nat)"
proof -
  assume "d < 10"
  then have "d \<in> {0, 1, 2, 3, 4, 5, 6, 7, 8, 9}" by auto
  then show ?thesis by (auto simp add: digits_def)
qed

lemma decimal_value_snoc:
  "decimal_value (s @ [c]) = 10 * decimal_value s + (of_char c - 48)"
  by (simp add: decimal_value_def)

lemma decimal_value_digits: "decimal_value (decimal_digits n) = n"
proof (induction n rule: decimal_digits.induct)
  case (1 n)
  show ?case
  proof (cases "n < 10")
    case True
    then show ?thesis
      by (subst decimal_digits.simps) (simp add: decimal_value_def digit_value)
  next
    case False
    then have "decimal_value (decimal_digits (n div 10)) = n div 10"
      using "1.IH" by simp
    then show ?thesis
      using False
      by (subst decimal_digits.simps) (simp add: decimal_value_snoc digit_value)
  qed
qed

lemma FormatInt10_uint: "decimal_value (FormatInt10 (uint i)) = unat i" for i :: "8 word"
  by (simp add: FormatInt10_def decimal_value_digits)

lemma small_access: "i < 7 \<Longrightarrow> i \<in> {0, 1, 2, 3, 4, 5, 6}" for i :: "8 word"
proof -
  assume "i < 7"
  then have "unat i < 7" by (simp add: word_less_nat_alt)
  then have "unat i \<in> {0, 1, 2, 3, 4, 5, 6}" by auto
  then show ?thesis by (auto simp add: word_unat_eq_iff)
qed

lemma String_names:
  "String 0 = Inr ''AccessNotSpecified''"
  "String 1 = Inr ''AccessNone''"
  "String 2 = Inr ''AccessSelf''"
  "String 3 = Inr ''AccessContract''"
  "String 4 = Inr ''AccessAccount''"
  "String 5 = Inr ''AccessAll''"
  "String 6 = Inr ''AccessPubSettableLegacy''"
  by (simp_all add: String_def PrimitiveAccess_index_def PrimitiveAccess_name_def
      index_at_def slice_string_def word_le_nat_alt)

lemma String_beyond:
  "7 \<le> i \<Longrightarrow> String i = Inr (''PrimitiveAccess('' @ FormatInt10 (uint i) @ '')'')"
  by (simp add: String_def PrimitiveAccess_index_def)

lemma String_returns: "\<exists>s. String i = Inr s"
proof (cases "7 \<le> i")
  case True
  then show ?thesis using String_beyond by blast
next
  case False
  then have "i \<in> {0, 1, 2, 3, 4, 5, 6}" using small_access by simp
  then show ?thesis using String_names by auto
qed

text \<open>
  C10: \<open>String\<close> returns a string for every value and never panics on an index or a slice
  bound. The values 0 to 6 give the seven constant names, and every value from 7 on gives
  \<open>PrimitiveAccess(\<close>, the decimal digits of the value, and \<open>)\<close>.
\<close>

theorem PrimitiveAccess_String_total:
  "(\<forall>i. \<exists>s. String i = Inr s) \<and>
   String 0 = Inr ''AccessNotSpecified'' \<and>
   String 1 = Inr ''AccessNone'' \<and>
   String 2 = Inr ''AccessSelf'' \<and>
   String 3 = Inr ''AccessContract'' \<and>
   String 4 = Inr ''AccessAccount'' \<and>
   String 5 = Inr ''AccessAll'' \<and>
   String 6 = Inr ''AccessPubSettableLegacy'' \<and>
   (\<forall>i. 7 \<le> i \<longrightarrow>
      String i = Inr (''PrimitiveAccess('' @ FormatInt10 (uint i) @ '')'') \<and>
      decimal_value (FormatInt10 (uint i)) = unat i)"
  using String_returns String_names String_beyond FormatInt10_uint by simp

theorem PrimitiveAccess_String_total_witness:
  "(7 :: 8 word) \<le> 200 \<and> String 200 = Inr ''PrimitiveAccess(200)'' \<and>
   String 7 = Inr ''PrimitiveAccess(7)'' \<and> String 255 = Inr ''PrimitiveAccess(255)''"
proof -
  have "\<forall>i. 7 \<le> i \<longrightarrow>
          String i = Inr (''PrimitiveAccess('' @ FormatInt10 (uint i) @ '')'')"
    using PrimitiveAccess_String_total by blast
  then have
    "String 200 = Inr (''PrimitiveAccess('' @ FormatInt10 (uint (200 :: 8 word)) @ '')'')"
    and "String 7 = Inr (''PrimitiveAccess('' @ FormatInt10 (uint (7 :: 8 word)) @ '')'')"
    and
    "String 255 = Inr (''PrimitiveAccess('' @ FormatInt10 (uint (255 :: 8 word)) @ '')'')"
    by simp_all
  then show ?thesis
    by (simp add: FormatInt10_def decimal_digits.simps digits_def)
qed

end
